theory Spec2Isabelle
  imports Complex_Main
begin

section \<open>Drawer item: data model\<close>

text \<open>
  The development follows \<^verbatim>\<open>packages/drawer/src/views/DrawerItem.tsx\<close>: the component
  \<^verbatim>\<open>LinkPressable\<close> (the pressable surface, a link on the web and a gesture responder
  elsewhere) and the component \<^verbatim>\<open>DrawerItem\<close> that resolves colours, radius, icon and
  label and hands the interactive region to \<^verbatim>\<open>LinkPressable\<close>.
\<close>

subsection \<open>Events and effects\<close>

text \<open>
  The \<^verbatim>\<open>button\<close> field of a DOM mouse event, as the click handler reads it:
  \<^verbatim>\<open>e.button == null\<close> holds for \<^verbatim>\<open>undefined\<close> and for \<^verbatim>\<open>null\<close>,
  \<^verbatim>\<open>e.button === 0\<close> for the number zero only.
\<close>

datatype js_button = ButtonUndefined | ButtonNull | ButtonNum int

record mouse_event =
  metaKey :: bool
  altKey :: bool
  ctrlKey :: bool
  shiftKey :: bool
  button :: js_button

text \<open>
  What the handler is called with: a DOM \<^verbatim>\<open>MouseEvent\<close> (the case
  \<^verbatim>\<open>e instanceof MouseEvent\<close>), or any other event object (a gesture responder event),
  of which the handler reads nothing.
\<close>

datatype event = MouseEvent mouse_event | GestureResponderEvent

text \<open>
  The effects a handler has, in the order it performs them: \<^verbatim>\<open>e.preventDefault()\<close>,
  and a call of a function the caller supplied (identified by a value of type \<open>'cb\<close>),
  which receives the event the handler was called with.
\<close>

datatype 'cb action = PreventDefault | Invoke 'cb

subsection \<open>Styles\<close>

text \<open>
  The value a style object binds a key to: a number, a string, or \<^verbatim>\<open>undefined\<close> (an
  optional style property may be written out with the value \<^verbatim>\<open>undefined\<close>, as in
  \<^verbatim>\<open>{borderRadius: undefined}\<close>, which is not the same object as \<^verbatim>\<open>{}\<close>).
\<close>

datatype style_value = StyleUndefined | StyleNum real | StyleStr string

type_synonym style_object = "string \<rightharpoonup> style_value"

text \<open>
  A \<^verbatim>\<open>StyleProp\<close>: a style object, an array of style props, or a falsy value
  (\<^verbatim>\<open>undefined\<close>).
\<close>

datatype style = StyleObject style_object | StyleArray "style list" | StyleFalsy

text \<open>
  \<^verbatim>\<open>StyleSheet.flatten\<close> of the host library: the entries of an array are merged from
  left to right, a later entry overriding every key it has, also one it binds to
  \<^verbatim>\<open>undefined\<close> (each key of the entry is copied with its value); falsy entries
  contribute nothing.
\<close>

fun flatten :: "style \<Rightarrow> style_object" where
  "flatten (StyleObject m) = m"
| "flatten (StyleArray xs) = foldl (\<lambda>acc s. acc ++ flatten s) Map.empty xs"
| "flatten StyleFalsy = Map.empty"

subsection \<open>Values, props and elements\<close>

text \<open>
  The JavaScript values that occur as props and as rendered nodes. \<open>Callback\<close> is a function
  supplied by the caller of the component; \<open>Handler\<close> is a closure the component itself
  creates, given by what it does on an event. \<open>Element\<close> is a JSX element: the name of its
  type and its props, the children being the prop \<^verbatim>\<open>children\<close>.
\<close>

datatype 'cb jsx =
    Undefined
  | Null
  | Bool bool
  | Num real
  | Str string
  | Callback 'cb
  | Handler "event \<Rightarrow> 'cb action list"
  | Style style
  | Route string "'cb jsx"
  | NavigateAction "'cb jsx" "'cb jsx"
  | AccessibilityState bool
  | Element string "string \<Rightarrow> 'cb jsx option"
  | Fragment "'cb jsx list"

type_synonym 'cb props_object = "string \<rightharpoonup> 'cb jsx"

text \<open>Reading a property of a props object: a key that is absent reads as \<^verbatim>\<open>undefined\<close>.\<close>

definition get_prop :: "'cb props_object \<Rightarrow> string \<Rightarrow> 'cb jsx" where
  "get_prop p k = (case p k of None \<Rightarrow> Undefined | Some v \<Rightarrow> v)"

text \<open>The props of an element (none for a value that is no element).\<close>

fun element_props :: "'cb jsx \<Rightarrow> 'cb props_object" where
  "element_props (Element t m) = m"
| "element_props _ = Map.empty"

fun element_type :: "'cb jsx \<Rightarrow> string option" where
  "element_type (Element t m) = Some t"
| "element_type _ = None"

text \<open>JavaScript truthiness, as used by \<^verbatim>\<open>iconNode ? 32 : 0\<close>.\<close>

fun truthy :: "'cb jsx \<Rightarrow> bool" where
  "truthy Undefined = False"
| "truthy Null = False"
| "truthy (Bool b) = b"
| "truthy (Num n) = (n \<noteq> 0)"
| "truthy (Str s) = (s \<noteq> [])"
| "truthy _ = True"

text \<open>The style a prop value stands for when it is placed in a style array.\<close>

fun style_of :: "'cb jsx \<Rightarrow> style" where
  "style_of (Style s) = s"
| "style_of _ = StyleFalsy"

text \<open>\<^verbatim>\<open>v ?? undefined\<close>\<close>

fun nullish_to_undefined :: "'cb jsx \<Rightarrow> 'cb jsx" where
  "nullish_to_undefined Null = Undefined"
| "nullish_to_undefined v = v"

text \<open>
  Calling a function value with an event: a caller-supplied function is invoked once, a
  closure of the component does what its body does. The optional call \<^verbatim>\<open>f?.(e)\<close> does
  nothing for \<^verbatim>\<open>undefined\<close> and \<^verbatim>\<open>null\<close>; the props are typed as functions, so no
  other value is called.
\<close>

fun call_function :: "'cb jsx \<Rightarrow> event \<Rightarrow> 'cb action list" where
  "call_function (Callback cb) e = [Invoke cb]"
| "call_function (Handler h) e = h e"
| "call_function _ e = []"

subsection \<open>The style sheet of the module\<close>

definition styles_container :: style_object where
  "styles_container =
     [''marginHorizontal'' \<mapsto> StyleNum 10, ''marginVertical'' \<mapsto> StyleNum 4,
      ''overflow'' \<mapsto> StyleStr ''hidden'']"

definition styles_wrapper :: style_object where
  "styles_wrapper =
     [''flexDirection'' \<mapsto> StyleStr ''row'', ''alignItems'' \<mapsto> StyleStr ''center'',
      ''padding'' \<mapsto> StyleNum 8]"

definition styles_label :: style_object where
  "styles_label = [''marginRight'' \<mapsto> StyleNum 32, ''flex'' \<mapsto> StyleNum 1]"

definition styles_button :: style_object where
  "styles_button = [''display'' \<mapsto> StyleStr ''flex'']"

section \<open>LinkPressable\<close>

text \<open>
  The keys the parameter pattern of \<^verbatim>\<open>LinkPressable\<close> names; \<^verbatim>\<open>...rest\<close> collects
  the props under every other key.
\<close>

definition LinkPressable_named :: "string set" where
  "LinkPressable_named =
     {''route'', ''href'', ''children'', ''style'', ''onPress'', ''onLongPress'',
      ''onPressIn'', ''onPressOut'', ''accessibilityRole'', ''accessibilityState''}"

definition LinkPressable_rest :: "'cb props_object \<Rightarrow> 'cb props_object" where
  "LinkPressable_rest p = p |` (- LinkPressable_named)"

text \<open>
  The click handler given to \<^verbatim>\<open>Link\<close> (lines 134 to 145), as a function of the two
  variables it closes over, \<^verbatim>\<open>rest\<close> and \<^verbatim>\<open>onPress\<close>, and of the event.
\<close>

definition link_onPress ::
  "'cb props_object \<Rightarrow> 'cb jsx \<Rightarrow> event \<Rightarrow> 'cb action list" where
  "link_onPress rest onPress e =
     (case e of
        MouseEvent m \<Rightarrow>
          if \<not> (metaKey m \<or> altKey m \<or> ctrlKey m \<or> shiftKey m) \<and>
             (button m = ButtonUndefined \<or> button m = ButtonNull \<or> button m = ButtonNum 0)
          then PreventDefault #
               (if ''onPress'' \<in> dom rest then call_function onPress e else [])
          else []
      | GestureResponderEvent \<Rightarrow> [])"

datatype error = TypeError

text \<open>
  The component. \<open>os\<close> is \<^verbatim>\<open>Platform.OS\<close>. On the web the navigation action is built from
  \<^verbatim>\<open>route.name\<close> and \<^verbatim>\<open>route.params\<close>; reading them throws when \<^verbatim>\<open>route\<close> is
  \<^verbatim>\<open>undefined\<close> or \<^verbatim>\<open>null\<close>, and gives \<^verbatim>\<open>undefined\<close> on a value without these fields.
\<close>

fun route_name :: "'cb jsx \<Rightarrow> 'cb jsx" where
  "route_name (Route n ps) = Str n"
| "route_name _ = Undefined"

fun route_params :: "'cb jsx \<Rightarrow> 'cb jsx" where
  "route_params (Route n ps) = ps"
| "route_params _ = Undefined"

fun nullish :: "'cb jsx \<Rightarrow> bool" where
  "nullish Undefined = True"
| "nullish Null = True"
| "nullish _ = False"

definition LinkPressable :: "string \<Rightarrow> 'cb props_object \<Rightarrow> error + 'cb jsx" where
  "LinkPressable os p =
     (let route = get_prop p ''route'';
          href = get_prop p ''href'';
          children = get_prop p ''children'';
          style = get_prop p ''style'';
          onPress = get_prop p ''onPress'';
          onLongPress = get_prop p ''onLongPress'';
          onPressIn = get_prop p ''onPressIn'';
          onPressOut = get_prop p ''onPressOut'';
          accessibilityRole = get_prop p ''accessibilityRole'';
          rest = LinkPressable_rest p
      in if os = ''web'' then
           if nullish route then Inl TypeError
           else Inr (Element ''Link''
             (rest(''href'' \<mapsto> href,
                   ''action'' \<mapsto> NavigateAction (route_name route) (route_params route),
                   ''style'' \<mapsto> Style (StyleArray [StyleObject styles_button, style_of style]),
                   ''onPress'' \<mapsto> Handler (link_onPress rest onPress),
                   ''onLongPress'' \<mapsto> nullish_to_undefined onLongPress,
                   ''onPressIn'' \<mapsto> nullish_to_undefined onPressIn,
                   ''onPressOut'' \<mapsto> nullish_to_undefined onPressOut,
                   ''children'' \<mapsto> children)))
         else
           Inr (Element ''PlatformPressable''
             (rest(''accessibilityRole'' \<mapsto> accessibilityRole,
                   ''onPress'' \<mapsto> onPress,
                   ''children'' \<mapsto>
                      Element ''View'' [''style'' \<mapsto> style, ''children'' \<mapsto> children]))))"

text \<open>
  Modelled from the spec: the gesture-responder surface \<^verbatim>\<open>PlatformPressable\<close> of the
  package \<^verbatim>\<open>elements\<close> is not part of the file. In gesture mode "the activation callback
  is the direct press handler": a press on the surface calls the function under its prop
  \<^verbatim>\<open>onPress\<close> with the press event.
\<close>

definition press :: "'cb jsx \<Rightarrow> event \<Rightarrow> 'cb action list" where
  "press el e = call_function (get_prop (element_props el) ''onPress'') e"

section \<open>DrawerItem\<close>

subsection \<open>Props and theme\<close>

record icon_args =
  icon_size :: real
  icon_focused :: bool
  icon_color :: string

record label_args =
  label_color :: string
  label_focused :: bool

datatype 'cb label = LabelString string | LabelFunction "label_args \<Rightarrow> 'cb jsx"

text \<open>
  The type \<^verbatim>\<open>Props\<close>. An optional prop is an option, \<open>None\<close> being \<^verbatim>\<open>undefined\<close>; an
  absent style is \<open>StyleFalsy\<close>. \<open>rest\<close> holds the props under keys the parameter pattern
  of \<^verbatim>\<open>DrawerItem\<close> does not name. \<open>route\<close> is passed on as it is.
\<close>

record 'cb props =
  route :: "'cb jsx"
  href :: "string option"
  label :: "'cb label"
  icon :: "(icon_args \<Rightarrow> 'cb jsx) option"
  focused :: "bool option"
  onPress :: 'cb
  activeTintColor :: "string option"
  inactiveTintColor :: "string option"
  activeBackgroundColor :: "string option"
  inactiveBackgroundColor :: "string option"
  pressColor :: "string option"
  pressOpacity :: "real option"
  labelStyle :: style
  style :: style
  allowFontScaling :: "bool option"
  accessibilityLabel :: "string option"
  testID :: "string option"
  rest :: "'cb props_object"

text \<open>What \<^verbatim>\<open>useTheme()\<close> returns, as far as the component reads it.\<close>

record theme =
  colors_primary :: string
  colors_text :: string
  fonts_medium :: style_object

text \<open>
  The colour library is outside the file: \<open>withAlpha c a\<close> stands for
  \<^verbatim>\<open>Color(c).alpha(a).rgb().string()\<close> and is a parameter of the model.
\<close>

type_synonym with_alpha = "string \<Rightarrow> real \<Rightarrow> string"

fun opt_str :: "string option \<Rightarrow> 'cb jsx" where
  "opt_str None = Undefined"
| "opt_str (Some s) = Str s"

fun opt_num :: "real option \<Rightarrow> 'cb jsx" where
  "opt_num None = Undefined"
| "opt_num (Some n) = Num n"

fun opt_bool :: "bool option \<Rightarrow> 'cb jsx" where
  "opt_bool None = Undefined"
| "opt_bool (Some b) = Bool b"

subsection \<open>Defaults of the parameter pattern (lines 174 to 193)\<close>

definition resolved_focused :: "'cb props \<Rightarrow> bool" where
  "resolved_focused ps = (case focused ps of None \<Rightarrow> False | Some b \<Rightarrow> b)"

definition resolved_activeTintColor :: "theme \<Rightarrow> 'cb props \<Rightarrow> string" where
  "resolved_activeTintColor th ps =
     (case activeTintColor ps of None \<Rightarrow> colors_primary th | Some c \<Rightarrow> c)"

definition resolved_inactiveTintColor :: "with_alpha \<Rightarrow> theme \<Rightarrow> 'cb props \<Rightarrow> string" where
  "resolved_inactiveTintColor withAlpha th ps =
     (case inactiveTintColor ps of None \<Rightarrow> withAlpha (colors_text th) 0.68 | Some c \<Rightarrow> c)"

definition resolved_activeBackgroundColor ::
  "with_alpha \<Rightarrow> theme \<Rightarrow> 'cb props \<Rightarrow> string" where
  "resolved_activeBackgroundColor withAlpha th ps =
     (case activeBackgroundColor ps of
        None \<Rightarrow> withAlpha (resolved_activeTintColor th ps) 0.12
      | Some c \<Rightarrow> c)"

definition resolved_inactiveBackgroundColor :: "'cb props \<Rightarrow> string" where
  "resolved_inactiveBackgroundColor ps =
     (case inactiveBackgroundColor ps of None \<Rightarrow> ''transparent'' | Some c \<Rightarrow> c)"

subsection \<open>Local constants (lines 195 to 201)\<close>

text \<open>\<^verbatim>\<open>style || {}\<close>\<close>

fun style_or_empty :: "style \<Rightarrow> style" where
  "style_or_empty StyleFalsy = StyleObject Map.empty"
| "style_or_empty s = s"

text \<open>
  The default of an object pattern, \<^verbatim>\<open>{ k = d }\<close>: it is taken when the key is absent
  and when the key is bound to \<^verbatim>\<open>undefined\<close>.
\<close>

fun or_default :: "style_value \<Rightarrow> style_value option \<Rightarrow> style_value" where
  "or_default d None = d"
| "or_default d (Some StyleUndefined) = d"
| "or_default d (Some v) = v"

definition borderRadius :: "'cb props \<Rightarrow> style_value" where
  "borderRadius ps =
     or_default (StyleNum 4) (flatten (style_or_empty (style ps)) ''borderRadius'')"

definition color :: "with_alpha \<Rightarrow> theme \<Rightarrow> 'cb props \<Rightarrow> string" where
  "color withAlpha th ps =
     (if resolved_focused ps then resolved_activeTintColor th ps
      else resolved_inactiveTintColor withAlpha th ps)"

definition backgroundColor :: "with_alpha \<Rightarrow> theme \<Rightarrow> 'cb props \<Rightarrow> string" where
  "backgroundColor withAlpha th ps =
     (if resolved_focused ps then resolved_activeBackgroundColor withAlpha th ps
      else resolved_inactiveBackgroundColor ps)"

definition iconNode :: "with_alpha \<Rightarrow> theme \<Rightarrow> 'cb props \<Rightarrow> 'cb jsx" where
  "iconNode withAlpha th ps =
     (case icon ps of
        Some f \<Rightarrow>
          f \<lparr>icon_size = 24, icon_focused = resolved_focused ps,
             icon_color = color withAlpha th ps\<rparr>
      | None \<Rightarrow> Null)"

subsection \<open>The rendered tree (lines 203 to 244)\<close>

text \<open>The label (lines 229 to 239).\<close>

definition labelNode :: "with_alpha \<Rightarrow> theme \<Rightarrow> 'cb props \<Rightarrow> 'cb jsx" where
  "labelNode withAlpha th ps =
     (case label ps of
        LabelString s \<Rightarrow>
          Element ''Text''
            [''numberOfLines'' \<mapsto> Num 1,
             ''allowFontScaling'' \<mapsto> opt_bool (allowFontScaling ps),
             ''style'' \<mapsto>
                Style (StyleArray
                  [StyleObject [''color'' \<mapsto> StyleStr (color withAlpha th ps)],
                   StyleObject (fonts_medium th),
                   labelStyle ps]),
             ''children'' \<mapsto> Str s]
      | LabelFunction f \<Rightarrow>
          f \<lparr>label_color = color withAlpha th ps, label_focused = resolved_focused ps\<rparr>)"

text \<open>The wrapper of the label (lines 223 to 240).\<close>

definition labelWrapper :: "with_alpha \<Rightarrow> theme \<Rightarrow> 'cb props \<Rightarrow> 'cb jsx" where
  "labelWrapper withAlpha th ps =
     Element ''View''
       [''style'' \<mapsto>
          Style (StyleArray
            [StyleObject styles_label,
             StyleObject
               [''marginLeft'' \<mapsto>
                  StyleNum (if truthy (iconNode withAlpha th ps) then 32 else 0),
                ''marginVertical'' \<mapsto> StyleNum 5]]),
        ''children'' \<mapsto> labelNode withAlpha th ps]"

text \<open>The props given to \<^verbatim>\<open>LinkPressable\<close> (lines 209 to 242).\<close>

definition pressableProps :: "with_alpha \<Rightarrow> theme \<Rightarrow> 'cb props \<Rightarrow> 'cb props_object" where
  "pressableProps withAlpha th ps =
     [''testID'' \<mapsto> opt_str (testID ps),
      ''onPress'' \<mapsto> Callback (onPress ps),
      ''style'' \<mapsto>
         Style (StyleArray
           [StyleObject styles_wrapper, StyleObject [''borderRadius'' \<mapsto> borderRadius ps]]),
      ''accessibilityLabel'' \<mapsto> opt_str (accessibilityLabel ps),
      ''accessibilityRole'' \<mapsto> Str ''button'',
      ''accessibilityState'' \<mapsto> AccessibilityState (resolved_focused ps),
      ''pressColor'' \<mapsto> opt_str (pressColor ps),
      ''pressOpacity'' \<mapsto> opt_num (pressOpacity ps),
      ''route'' \<mapsto> route ps,
      ''href'' \<mapsto> opt_str (href ps),
      ''children'' \<mapsto>
         Fragment [iconNode withAlpha th ps, labelWrapper withAlpha th ps]]"

text \<open>The style of the outer container (line 207).\<close>

definition containerStyle :: "with_alpha \<Rightarrow> theme \<Rightarrow> 'cb props \<Rightarrow> style" where
  "containerStyle withAlpha th ps =
     StyleArray
       [StyleObject styles_container,
        StyleObject
          [''borderRadius'' \<mapsto> borderRadius ps,
           ''backgroundColor'' \<mapsto> StyleStr (backgroundColor withAlpha th ps)],
        style ps]"

definition DrawerItem :: "with_alpha \<Rightarrow> theme \<Rightarrow> 'cb props \<Rightarrow> 'cb jsx" where
  "DrawerItem withAlpha th ps =
     Element ''View''
       (([''collapsable'' \<mapsto> Bool False] ++ rest ps)
          (''style'' \<mapsto> Style (containerStyle withAlpha th ps),
           ''children'' \<mapsto> Element ''LinkPressable'' (pressableProps withAlpha th ps)))"

subsection \<open>Reading the rendered tree\<close>

text \<open>The \<^verbatim>\<open>LinkPressable\<close> element is the only child of the container.\<close>

definition pressable_of :: "'cb jsx \<Rightarrow> 'cb jsx" where
  "pressable_of tree = get_prop (element_props tree) ''children''"

text \<open>
  The component \<^verbatim>\<open>LinkPressable\<close> applied to the props the tree gives it: the surface
  that is rendered on the platform \<open>os\<close>.
\<close>

definition surface_of :: "string \<Rightarrow> 'cb jsx \<Rightarrow> error + 'cb jsx" where
  "surface_of os tree = LinkPressable os (element_props (pressable_of tree))"

text \<open>The children of the pressable are a fragment of the icon node and the label wrapper.\<close>

definition fragment_children :: "'cb jsx \<Rightarrow> 'cb jsx list" where
  "fragment_children v = (case v of Fragment xs \<Rightarrow> xs | _ \<Rightarrow> [])"

definition icon_of :: "'cb jsx \<Rightarrow> 'cb jsx option" where
  "icon_of tree =
     (case fragment_children (get_prop (element_props (pressable_of tree)) ''children'') of
        [i, w] \<Rightarrow> Some i
      | _ \<Rightarrow> None)"

definition label_wrapper_of :: "'cb jsx \<Rightarrow> 'cb jsx option" where
  "label_wrapper_of tree =
     (case fragment_children (get_prop (element_props (pressable_of tree)) ''children'') of
        [i, w] \<Rightarrow> Some w
      | _ \<Rightarrow> None)"

text \<open>The value a style prop resolves to for a key, after flattening.\<close>

definition style_at :: "'cb jsx \<Rightarrow> string \<Rightarrow> style_value option" where
  "style_at el k = flatten (style_of (get_prop (element_props el) ''style'')) k"

text \<open>
  The click interceptor of a rendered link: the function under the prop \<^verbatim>\<open>onPress\<close> of
  the element, called with the event.
\<close>

definition interceptor :: "'cb jsx \<Rightarrow> event \<Rightarrow> 'cb action list" where
  "interceptor el e = call_function (get_prop (element_props el) ''onPress'') e"

subsection \<open>A concrete drawer item\<close>

text \<open>
  A stand-in for the colour library that keeps the colour and the opacity apart, a theme,
  and the props of an item "Home" with every optional prop absent. The caller's
  \<^verbatim>\<open>onPress\<close> is identified by the string \<open>''openHome''\<close>.
\<close>

definition example_withAlpha :: with_alpha where
  "example_withAlpha c a =
     (if a = 0.12 then c @ ''/0.12'' else if a = 0.68 then c @ ''/0.68'' else c)"

definition example_theme :: theme where
  "example_theme =
     \<lparr>colors_primary = ''#007AFF'', colors_text = ''#000000'',
      fonts_medium = [''fontWeight'' \<mapsto> StyleStr ''500'']\<rparr>"

definition example_props :: "string props" where
  "example_props =
     \<lparr>route = Route ''Home'' Undefined, href = Some ''/home'', label = LabelString ''Home'',
      icon = None, focused = None, onPress = ''openHome'',
      activeTintColor = None, inactiveTintColor = None,
      activeBackgroundColor = None, inactiveBackgroundColor = None,
      pressColor = None, pressOpacity = None, labelStyle = StyleFalsy, style = StyleFalsy,
      allowFontScaling = None, accessibilityLabel = None, testID = None, rest = Map.empty\<rparr>"

text \<open>A left click with no modifier key.\<close>

definition plain_click :: mouse_event where
  "plain_click =
     \<lparr>metaKey = False, altKey = False, ctrlKey = False, shiftKey = False,
      button = ButtonNum 0\<rparr>"

text \<open>The same item with a style that writes the radius out as \<^verbatim>\<open>undefined\<close>.\<close>

definition undefined_radius_props :: "string props" where
  "undefined_radius_props =
     example_props\<lparr>style := StyleObject [''borderRadius'' \<mapsto> StyleUndefined]\<rparr>"

text \<open>An icon and a label given as render functions.\<close>

definition example_icon :: "icon_args \<Rightarrow> string jsx" where
  "example_icon a =
     Element ''Icon'' [''size'' \<mapsto> Num (icon_size a), ''color'' \<mapsto> Str (icon_color a)]"

definition example_label :: "label_args \<Rightarrow> string jsx" where
  "example_label a =
     Element ''Badge'' [''color'' \<mapsto> Str (label_color a), ''active'' \<mapsto> Bool (label_focused a)]"

section \<open>Properties of LinkPressable\<close>

subsection \<open>Auxiliary facts\<close>

text \<open>The rest object never has a key that the parameter pattern names.\<close>

lemma rest_onPress: "''onPress'' \<notin> dom (LinkPressable_rest p)"
  by (simp add: LinkPressable_rest_def LinkPressable_named_def)

lemma rest_accessibilityState: "LinkPressable_rest p ''accessibilityState'' = None"
  by (simp add: LinkPressable_rest_def LinkPressable_named_def)

text \<open>On the web the interceptor of the rendered element is the closure of lines 134 to 145.\<close>

lemma LinkPressable_web_interceptor:
  assumes "LinkPressable ''web'' p = Inr el"
  shows "interceptor el e = link_onPress (LinkPressable_rest p) (get_prop p ''onPress'') e"
  using assms
  by (auto simp: LinkPressable_def Let_def interceptor_def get_prop_def split: if_splits)

lemma flatten_or_empty: "flatten (style_or_empty s) = flatten s"
  by (cases s) simp_all

lemma pressable_of_DrawerItem:
  "pressable_of (DrawerItem wa th ps) = Element ''LinkPressable'' (pressableProps wa th ps)"
  by (simp add: pressable_of_def DrawerItem_def get_prop_def)

text \<open>The example item renders on the web and elsewhere.\<close>

lemma example_web_surface:
  "\<exists>el. LinkPressable ''web''
          (pressableProps example_withAlpha example_theme example_props) = Inr el"
  by (simp add: LinkPressable_def Let_def pressableProps_def get_prop_def example_props_def)

lemma example_onPress:
  "pressableProps example_withAlpha example_theme example_props ''onPress''
     = Some (Callback ''openHome'')"
  by (simp add: pressableProps_def example_props_def)

subsection \<open>Link mode\<close>

text \<open>
  C1. In link mode a click that is a \<^verbatim>\<open>MouseEvent\<close> with no modifier key and the primary
  button should suppress the default navigation and call the caller's \<^verbatim>\<open>onPress\<close>
  exactly once. The code does the first only: the call is guarded by
  \<^verbatim>\<open>'onPress' in rest\<close>, and \<^verbatim>\<open>rest\<close> never has the key \<^verbatim>\<open>onPress\<close>, which the
  parameter pattern takes out. For the example item rendered on the web, whose
  \<^verbatim>\<open>LinkPressable\<close> is given the caller's function, a plain left click has the single
  effect \<^verbatim>\<open>preventDefault\<close>; the caller's function is not invoked.
\<close>

theorem link_click_drops_onPress:
  "\<exists>el. surface_of ''web'' (DrawerItem example_withAlpha example_theme example_props) = Inr el
      \<and> element_type el = Some ''Link''
      \<and> get_prop
           (element_props
              (pressable_of (DrawerItem example_withAlpha example_theme example_props)))
           ''onPress'' = Callback ''openHome''
      \<and> interceptor el (MouseEvent plain_click) = [PreventDefault]"
  by (simp add: surface_of_def pressable_of_DrawerItem LinkPressable_def Let_def
      pressableProps_def get_prop_def example_props_def interceptor_def link_onPress_def
      plain_click_def LinkPressable_rest_def LinkPressable_named_def)

text \<open>
  C2. In link mode, for every mouse click with a modifier key (meta, alt, ctrl or shift)
  held, or with a button that is not the primary one, the interceptor does nothing: no
  \<^verbatim>\<open>preventDefault\<close>, no call of the activation callback.
\<close>

theorem link_click_passes_through:
  assumes "LinkPressable ''web'' p = Inr el"
      and "metaKey m \<or> altKey m \<or> ctrlKey m \<or> shiftKey m \<or>
           (button m \<noteq> ButtonUndefined \<and> button m \<noteq> ButtonNull \<and> button m \<noteq> ButtonNum 0)"
  shows "interceptor el (MouseEvent m) = []"
  using assms(2) unfolding LinkPressable_web_interceptor [OF assms(1)]
  by (auto simp: link_onPress_def)

theorem link_click_passes_through_witness:
  "\<exists>el. LinkPressable ''web''
          (pressableProps example_withAlpha example_theme example_props) = Inr el
      \<and> shiftKey (plain_click\<lparr>shiftKey := True\<rparr>)
      \<and> interceptor el (MouseEvent (plain_click\<lparr>shiftKey := True\<rparr>)) = []"
proof -
  obtain el where el:
    "LinkPressable ''web''
       (pressableProps example_withAlpha example_theme example_props) = Inr el"
    using example_web_surface by blast
  have shift: "shiftKey (plain_click\<lparr>shiftKey := True\<rparr>)" by simp
  then have "interceptor el (MouseEvent (plain_click\<lparr>shiftKey := True\<rparr>)) = []"
    using link_click_passes_through [OF el] by blast
  with el shift show ?thesis by blast
qed

text \<open>
  C9. In link mode a mouse click whose \<^verbatim>\<open>button\<close> is \<^verbatim>\<open>null\<close> or \<^verbatim>\<open>undefined\<close>, with
  no modifier key held, is taken for a primary click: it is intercepted, the default
  navigation being suppressed first, and the interceptor does what it does for the same click
  with \<^verbatim>\<open>button\<close> equal to 0.
\<close>

theorem link_click_null_button:
  assumes "LinkPressable ''web'' p = Inr el"
      and "\<not> (metaKey m \<or> altKey m \<or> ctrlKey m \<or> shiftKey m)"
      and "button m = ButtonNull \<or> button m = ButtonUndefined"
  shows "interceptor el (MouseEvent m) \<noteq> []
       \<and> hd (interceptor el (MouseEvent m)) = PreventDefault
       \<and> interceptor el (MouseEvent m)
           = interceptor el (MouseEvent (m\<lparr>button := ButtonNum 0\<rparr>))"
  using assms(2,3) rest_onPress [of p] unfolding LinkPressable_web_interceptor [OF assms(1)]
  by (auto simp: link_onPress_def)

theorem link_click_null_button_witness:
  "\<exists>el. LinkPressable ''web''
          (pressableProps example_withAlpha example_theme example_props) = Inr el
      \<and> \<not> (metaKey (plain_click\<lparr>button := ButtonNull\<rparr>)
           \<or> altKey (plain_click\<lparr>button := ButtonNull\<rparr>)
           \<or> ctrlKey (plain_click\<lparr>button := ButtonNull\<rparr>)
           \<or> shiftKey (plain_click\<lparr>button := ButtonNull\<rparr>))
      \<and> button (plain_click\<lparr>button := ButtonNull\<rparr>) = ButtonNull
      \<and> interceptor el (MouseEvent (plain_click\<lparr>button := ButtonNull\<rparr>)) \<noteq> []
      \<and> hd (interceptor el (MouseEvent (plain_click\<lparr>button := ButtonNull\<rparr>))) = PreventDefault
      \<and> interceptor el (MouseEvent (plain_click\<lparr>button := ButtonNull\<rparr>))
          = interceptor el (MouseEvent plain_click)"
proof -
  obtain el where el:
    "LinkPressable ''web''
       (pressableProps example_withAlpha example_theme example_props) = Inr el"
    using example_web_surface by blast
  have keys: "\<not> (metaKey (plain_click\<lparr>button := ButtonNull\<rparr>)
           \<or> altKey (plain_click\<lparr>button := ButtonNull\<rparr>)
           \<or> ctrlKey (plain_click\<lparr>button := ButtonNull\<rparr>)
           \<or> shiftKey (plain_click\<lparr>button := ButtonNull\<rparr>))"
    by (simp add: plain_click_def)
  have btn: "button (plain_click\<lparr>button := ButtonNull\<rparr>) = ButtonNull
             \<or> button (plain_click\<lparr>button := ButtonNull\<rparr>) = ButtonUndefined"
    by simp
  have same: "plain_click\<lparr>button := ButtonNull\<rparr>\<lparr>button := ButtonNum 0\<rparr> = plain_click"
    by (simp add: plain_click_def)
  from link_click_null_button [OF el keys btn] el keys same show ?thesis
    by auto
qed

subsection \<open>Gesture mode\<close>

text \<open>
  C5. In gesture mode (any platform other than the web) the caller's activation callback
  is the prop \<^verbatim>\<open>onPress\<close> of the gesture-responder surface itself, so a press, whatever
  the event, invokes it exactly once; no condition on modifier keys is applied.
\<close>

theorem gesture_press_direct:
  assumes "os \<noteq> ''web''" and "p ''onPress'' = Some (Callback cb)"
  shows "\<exists>el. LinkPressable os p = Inr el \<and> element_type el = Some ''PlatformPressable''
           \<and> get_prop (element_props el) ''onPress'' = Callback cb
           \<and> (\<forall>e. press el e = [Invoke cb])"
  using assms by (simp add: LinkPressable_def Let_def get_prop_def press_def)

theorem gesture_press_direct_witness:
  "''ios'' \<noteq> ''web''
   \<and> pressableProps example_withAlpha example_theme example_props ''onPress''
       = Some (Callback ''openHome'')
   \<and> (\<exists>el. LinkPressable ''ios''
              (pressableProps example_withAlpha example_theme example_props) = Inr el
          \<and> element_type el = Some ''PlatformPressable''
          \<and> get_prop (element_props el) ''onPress'' = Callback ''openHome''
          \<and> (\<forall>e. press el e = [Invoke ''openHome'']))"
proof -
  have os: "''ios'' \<noteq> ''web''" by simp
  from gesture_press_direct
         [of "''ios''" "pressableProps example_withAlpha example_theme example_props"
             "''openHome''"]
       os example_onPress
  show ?thesis by blast
qed

subsection \<open>The accessibility state\<close>

text \<open>
  C10. \<^verbatim>\<open>DrawerItem\<close> passes the accessibility state \<^verbatim>\<open>{selected: focused}\<close> to
  \<^verbatim>\<open>LinkPressable\<close>, which takes it out of the rest object and drops it: for every input,
  in either mode, the element it renders has no prop \<^verbatim>\<open>accessibilityState\<close>.
\<close>

theorem accessibilityState_dropped:
  "element_props (pressable_of (DrawerItem wa th ps)) ''accessibilityState''
     = Some (AccessibilityState (resolved_focused ps))
   \<and> (LinkPressable os p = Inr el \<longrightarrow> element_props el ''accessibilityState'' = None)"
  by (auto simp: pressable_of_DrawerItem pressableProps_def LinkPressable_def Let_def
      rest_accessibilityState split: if_splits)

theorem accessibilityState_dropped_witness:
  "element_props
     (pressable_of (DrawerItem example_withAlpha example_theme example_props))
     ''accessibilityState'' = Some (AccessibilityState False)
   \<and> (\<exists>el. LinkPressable ''web''
              (pressableProps example_withAlpha example_theme example_props) = Inr el
          \<and> element_props el ''accessibilityState'' = None)"
proof -
  obtain el where el:
    "LinkPressable ''web''
       (pressableProps example_withAlpha example_theme example_props) = Inr el"
    using example_web_surface by blast
  have f: "resolved_focused example_props = False"
    by (simp add: resolved_focused_def example_props_def)
  from accessibilityState_dropped
         [of example_withAlpha example_theme example_props "''web''"
             "pressableProps example_withAlpha example_theme example_props" el]
       el f
  show ?thesis by auto
qed

section \<open>Properties of DrawerItem\<close>

subsection \<open>Auxiliary facts: where the local constants reach the tree\<close>

text \<open>
  The container's style array ends with the caller's style, so a radius the caller's style
  binds, to whatever value, is the container's; otherwise the resolved one is.
\<close>

lemma container_radius:
  "style_at (DrawerItem wa th ps) ''borderRadius''
     = (case flatten (style ps) ''borderRadius'' of
          None \<Rightarrow> Some (borderRadius ps)
        | Some r \<Rightarrow> Some r)"
  by (simp add: style_at_def DrawerItem_def get_prop_def containerStyle_def map_add_def
      split: option.splits)

lemma borderRadius_read:
  "borderRadius ps = or_default (StyleNum 4) (flatten (style ps) ''borderRadius'')"
  by (simp add: borderRadius_def flatten_or_empty)

lemma pressable_radius:
  "style_at (pressable_of (DrawerItem wa th ps)) ''borderRadius'' = Some (borderRadius ps)"
  by (simp add: style_at_def pressable_of_DrawerItem get_prop_def pressableProps_def)

lemma label_wrapper_of_DrawerItem:
  "label_wrapper_of (DrawerItem wa th ps) = Some (labelWrapper wa th ps)"
  by (simp add: label_wrapper_of_def pressable_of_DrawerItem get_prop_def pressableProps_def
      fragment_children_def)

lemma icon_of_DrawerItem:
  "icon_of (DrawerItem wa th ps) = Some (iconNode wa th ps)"
  by (simp add: icon_of_def pressable_of_DrawerItem get_prop_def pressableProps_def
      fragment_children_def)

lemma labelWrapper_marginLeft:
  "style_at (labelWrapper wa th ps) ''marginLeft''
     = Some (StyleNum (if truthy (iconNode wa th ps) then 32 else 0))"
  by (simp add: style_at_def labelWrapper_def get_prop_def)

lemma labelWrapper_children:
  "get_prop (element_props (labelWrapper wa th ps)) ''children'' = labelNode wa th ps"
  by (simp add: labelWrapper_def get_prop_def)

lemma web_surface_radius:
  assumes "\<not> nullish (route ps)"
  shows "\<exists>el. surface_of ''web'' (DrawerItem wa th ps) = Inr el
           \<and> element_type el = Some ''Link''
           \<and> style_at el ''borderRadius'' = Some (borderRadius ps)"
  using assms
  by (simp add: surface_of_def pressable_of_DrawerItem LinkPressable_def Let_def
      pressableProps_def get_prop_def style_at_def)

lemma gesture_surface_radius:
  assumes "os \<noteq> ''web''"
  shows "\<exists>el. surface_of os (DrawerItem wa th ps) = Inr el
           \<and> element_type el = Some ''PlatformPressable''
           \<and> style_at (get_prop (element_props el) ''children'') ''borderRadius''
               = Some (borderRadius ps)"
  using assms
  by (simp add: surface_of_def pressable_of_DrawerItem LinkPressable_def Let_def
      pressableProps_def get_prop_def style_at_def)

subsection \<open>Colours\<close>

text \<open>
  C3. For every value of \<^verbatim>\<open>focused\<close> (absent counts as false) and every combination of
  the four colour overrides, present or absent, the foreground colour is the resolved
  \<^verbatim>\<open>activeTintColor\<close> and the background colour the resolved
  \<^verbatim>\<open>activeBackgroundColor\<close> when the item is focused, and the inactive pair otherwise;
  with all four overrides given the result is one of the given values, never a mixture.
\<close>

theorem colors_follow_focused:
  "color wa th ps
     = (if focused ps = Some True then resolved_activeTintColor th ps
        else resolved_inactiveTintColor wa th ps)
   \<and> backgroundColor wa th ps
     = (if focused ps = Some True then resolved_activeBackgroundColor wa th ps
        else resolved_inactiveBackgroundColor ps)
   \<and> color wa th
        (ps\<lparr>focused := Some f, activeTintColor := Some a, inactiveTintColor := Some i,
            activeBackgroundColor := Some ab, inactiveBackgroundColor := Some ib\<rparr>)
     = (if f then a else i)
   \<and> backgroundColor wa th
        (ps\<lparr>focused := Some f, activeTintColor := Some a, inactiveTintColor := Some i,
            activeBackgroundColor := Some ab, inactiveBackgroundColor := Some ib\<rparr>)
     = (if f then ab else ib)"
  by (simp add: color_def backgroundColor_def resolved_focused_def
      resolved_activeTintColor_def resolved_inactiveTintColor_def
      resolved_activeBackgroundColor_def resolved_inactiveBackgroundColor_def
      split: option.splits)

text \<open>
  C4. An absent override resolves to its default: \<^verbatim>\<open>activeTintColor\<close> to the primary
  colour of the theme, \<^verbatim>\<open>inactiveTintColor\<close> to the text colour of the theme with alpha
  0.68, \<^verbatim>\<open>activeBackgroundColor\<close> to the resolved \<^verbatim>\<open>activeTintColor\<close> (the caller's
  override, if there is one) with alpha 0.12, \<^verbatim>\<open>inactiveBackgroundColor\<close> to
  \<^verbatim>\<open>'transparent'\<close>.
\<close>

theorem defaults_resolve:
  "(activeTintColor ps = None \<longrightarrow> resolved_activeTintColor th ps = colors_primary th)
   \<and> (inactiveTintColor ps = None \<longrightarrow>
        resolved_inactiveTintColor wa th ps = wa (colors_text th) 0.68)
   \<and> (activeBackgroundColor ps = None \<longrightarrow>
        resolved_activeBackgroundColor wa th ps = wa (resolved_activeTintColor th ps) 0.12)
   \<and> (inactiveBackgroundColor ps = None \<longrightarrow>
        resolved_inactiveBackgroundColor ps = ''transparent'')
   \<and> resolved_activeBackgroundColor wa th
        (ps\<lparr>activeTintColor := Some c, activeBackgroundColor := None\<rparr>) = wa c 0.12"
  by (simp add: resolved_activeTintColor_def resolved_inactiveTintColor_def
      resolved_activeBackgroundColor_def resolved_inactiveBackgroundColor_def)

theorem defaults_resolve_witness:
  "activeTintColor example_props = None \<and> inactiveTintColor example_props = None
   \<and> activeBackgroundColor example_props = None \<and> inactiveBackgroundColor example_props = None
   \<and> resolved_activeTintColor example_theme example_props = ''#007AFF''
   \<and> resolved_inactiveTintColor example_withAlpha example_theme example_props = ''#000000/0.68''
   \<and> resolved_activeBackgroundColor example_withAlpha example_theme example_props = ''#007AFF/0.12''
   \<and> resolved_inactiveBackgroundColor example_props = ''transparent''
   \<and> resolved_activeBackgroundColor example_withAlpha example_theme
        (example_props\<lparr>activeTintColor := Some ''#112233'', activeBackgroundColor := None\<rparr>)
       = ''#112233/0.12''"
proof -
  have none: "activeTintColor example_props = None" "inactiveTintColor example_props = None"
    "activeBackgroundColor example_props = None" "inactiveBackgroundColor example_props = None"
    by (simp_all add: example_props_def)
  have th: "colors_primary example_theme = ''#007AFF''" "colors_text example_theme = ''#000000''"
    by (simp_all add: example_theme_def)
  have wa: "example_withAlpha ''#000000'' 0.68 = ''#000000/0.68''"
    "example_withAlpha ''#007AFF'' 0.12 = ''#007AFF/0.12''"
    "example_withAlpha ''#112233'' 0.12 = ''#112233/0.12''"
    by (simp_all add: example_withAlpha_def)
  from defaults_resolve [of example_props example_theme example_withAlpha "''#112233''"]
    none th wa
  show ?thesis by simp
qed

subsection \<open>Layout\<close>

text \<open>
  Where the caller's style, flattened, has no radius or a defined one, the resolved radius
  (the caller's, or 4) is that of the container, of the style given to
  \<^verbatim>\<open>LinkPressable\<close>, of the link rendered on the web and of the view inside the gesture
  surface elsewhere.
\<close>

lemma radius_shared_unless_undefined:
  assumes "flatten (style ps) ''borderRadius'' \<noteq> Some StyleUndefined"
  shows "borderRadius ps
           = (case flatten (style ps) ''borderRadius'' of None \<Rightarrow> StyleNum 4 | Some r \<Rightarrow> r)"
    and "style_at (DrawerItem wa th ps) ''borderRadius'' = Some (borderRadius ps)"
    and "style_at (pressable_of (DrawerItem wa th ps)) ''borderRadius''
           = Some (borderRadius ps)"
proof -
  show r: "borderRadius ps
           = (case flatten (style ps) ''borderRadius'' of None \<Rightarrow> StyleNum 4 | Some r \<Rightarrow> r)"
  proof (cases "flatten (style ps) ''borderRadius''")
    case None
    then show ?thesis by (simp add: borderRadius_read)
  next
    case (Some v)
    with assms have "v \<noteq> StyleUndefined" by simp
    with Some show ?thesis by (cases v) (simp_all add: borderRadius_read)
  qed
  show "style_at (DrawerItem wa th ps) ''borderRadius'' = Some (borderRadius ps)"
    unfolding container_radius r by (simp split: option.splits)
  show "style_at (pressable_of (DrawerItem wa th ps)) ''borderRadius''
           = Some (borderRadius ps)"
    by (rule pressable_radius)
qed

lemma radius_ten_shared:
  "borderRadius (example_props\<lparr>style := StyleObject [''borderRadius'' \<mapsto> StyleNum 10]\<rparr>)
     = StyleNum 10
   \<and> style_at
        (DrawerItem example_withAlpha example_theme
           (example_props\<lparr>style := StyleObject [''borderRadius'' \<mapsto> StyleNum 10]\<rparr>))
        ''borderRadius'' = Some (StyleNum 10)
   \<and> style_at
        (pressable_of
           (DrawerItem example_withAlpha example_theme
              (example_props\<lparr>style := StyleObject [''borderRadius'' \<mapsto> StyleNum 10]\<rparr>)))
        ''borderRadius'' = Some (StyleNum 10)"
proof -
  let ?ps = "example_props\<lparr>style := StyleObject [''borderRadius'' \<mapsto> StyleNum 10]\<rparr>"
  have ten: "flatten (style ?ps) ''borderRadius'' = Some (StyleNum 10)" by simp
  then have ok: "flatten (style ?ps) ''borderRadius'' \<noteq> Some StyleUndefined" by simp
  from radius_shared_unless_undefined(1) [OF ok]
       radius_shared_unless_undefined(2,3) [OF ok, of example_withAlpha example_theme] ten
  show ?thesis by simp
qed

text \<open>
  C6. The corner radius is read from the caller's style and is 4 when the style gives none,
  and the one resolved value should be the radius of the outer container and of the inner
  pressable region, so that the two are always equal. The code misses a case: for the style
  \<^verbatim>\<open>{borderRadius: undefined}\<close> the pattern of line 195 resolves the radius to its
  default 4, which the pressable region gets (line 212, and so do the link on the web and the
  view inside the gesture surface), while the container's style array (line 207) ends with
  the caller's style, whose key overrides the resolved value: the radius of the container is
  \<^verbatim>\<open>undefined\<close>, not 4.
\<close>

theorem radius_undefined_differs:
  "borderRadius undefined_radius_props = StyleNum 4
   \<and> style_at
        (pressable_of (DrawerItem example_withAlpha example_theme undefined_radius_props))
        ''borderRadius'' = Some (StyleNum 4)
   \<and> style_at (DrawerItem example_withAlpha example_theme undefined_radius_props)
        ''borderRadius'' = Some StyleUndefined
   \<and> (\<exists>el. surface_of ''web''
              (DrawerItem example_withAlpha example_theme undefined_radius_props) = Inr el
          \<and> style_at el ''borderRadius'' = Some (StyleNum 4))
   \<and> (\<exists>el. surface_of ''android''
              (DrawerItem example_withAlpha example_theme undefined_radius_props) = Inr el
          \<and> style_at (get_prop (element_props el) ''children'') ''borderRadius''
              = Some (StyleNum 4))"
proof -
  let ?ps = undefined_radius_props
  have written: "flatten (style ?ps) ''borderRadius'' = Some StyleUndefined"
    by (simp add: undefined_radius_props_def)
  have r: "borderRadius ?ps = StyleNum 4"
    by (simp add: borderRadius_read written)
  have inner: "style_at (pressable_of (DrawerItem example_withAlpha example_theme ?ps))
                 ''borderRadius'' = Some (StyleNum 4)"
    by (simp add: pressable_radius r)
  have outer: "style_at (DrawerItem example_withAlpha example_theme ?ps) ''borderRadius''
                 = Some StyleUndefined"
    by (simp add: container_radius written)
  have route: "\<not> nullish (route ?ps)"
    by (simp add: undefined_radius_props_def example_props_def)
  have web: "\<exists>el. surface_of ''web'' (DrawerItem example_withAlpha example_theme ?ps) = Inr el
          \<and> style_at el ''borderRadius'' = Some (StyleNum 4)"
    using web_surface_radius [OF route, of example_withAlpha example_theme] r by auto
  have "''android'' \<noteq> ''web''" by simp
  then have native:
    "\<exists>el. surface_of ''android'' (DrawerItem example_withAlpha example_theme ?ps) = Inr el
          \<and> style_at (get_prop (element_props el) ''children'') ''borderRadius''
              = Some (StyleNum 4)"
    using gesture_surface_radius [of "''android''" example_withAlpha example_theme ?ps] r
    by auto
  from r inner outer web native show ?thesis by blast
qed

text \<open>
  C7. The left margin of the label wrapper is 32 when an icon render function is given and
  produces an icon node, and 0 when the prop \<^verbatim>\<open>icon\<close> is absent.
\<close>

theorem label_margin:
  "(icon ps = Some f
      \<and> truthy (f \<lparr>icon_size = 24, icon_focused = resolved_focused ps,
                   icon_color = color wa th ps\<rparr>) \<longrightarrow>
      (\<exists>w. label_wrapper_of (DrawerItem wa th ps) = Some w
         \<and> style_at w ''marginLeft'' = Some (StyleNum 32)))
   \<and> (icon ps = None \<longrightarrow>
      (\<exists>w. label_wrapper_of (DrawerItem wa th ps) = Some w
         \<and> style_at w ''marginLeft'' = Some (StyleNum 0)))"
  by (simp add: label_wrapper_of_DrawerItem labelWrapper_marginLeft iconNode_def)

theorem label_margin_witness:
  "icon (example_props\<lparr>icon := Some example_icon\<rparr>) = Some example_icon
   \<and> truthy (example_icon
        \<lparr>icon_size = 24,
         icon_focused = resolved_focused (example_props\<lparr>icon := Some example_icon\<rparr>),
         icon_color = color example_withAlpha example_theme
                        (example_props\<lparr>icon := Some example_icon\<rparr>)\<rparr>)
   \<and> (\<exists>w. label_wrapper_of
             (DrawerItem example_withAlpha example_theme
                (example_props\<lparr>icon := Some example_icon\<rparr>)) = Some w
         \<and> style_at w ''marginLeft'' = Some (StyleNum 32))
   \<and> icon example_props = None
   \<and> (\<exists>w. label_wrapper_of (DrawerItem example_withAlpha example_theme example_props) = Some w
         \<and> style_at w ''marginLeft'' = Some (StyleNum 0))"
proof -
  let ?ps = "example_props\<lparr>icon := Some example_icon\<rparr>"
  have given: "icon ?ps = Some example_icon" by simp
  have node: "truthy (example_icon
        \<lparr>icon_size = 24, icon_focused = resolved_focused ?ps,
         icon_color = color example_withAlpha example_theme ?ps\<rparr>)"
    by (simp add: example_icon_def)
  have absent: "icon example_props = None" by (simp add: example_props_def)
  from label_margin [of ?ps example_icon example_withAlpha example_theme]
       label_margin [of example_props example_icon example_withAlpha example_theme]
       given node absent
  show ?thesis by blast
qed

subsection \<open>The label\<close>

text \<open>
  C8. A label that is a string is rendered as a \<^verbatim>\<open>Text\<close> element with
  \<^verbatim>\<open>numberOfLines\<close> 1, the font-scaling flag as given, and the style made of the resolved
  foreground colour, the medium font of the theme and the caller's label style, in this
  order; a label that is a render function is called with the colour and the focused flag,
  and its result is the child of the label wrapper as it is.
\<close>

theorem label_rendering:
  "(label ps = LabelString s \<longrightarrow>
      (\<exists>w t. label_wrapper_of (DrawerItem wa th ps) = Some w
         \<and> get_prop (element_props w) ''children'' = t
         \<and> element_type t = Some ''Text''
         \<and> get_prop (element_props t) ''numberOfLines'' = Num 1
         \<and> get_prop (element_props t) ''allowFontScaling'' = opt_bool (allowFontScaling ps)
         \<and> get_prop (element_props t) ''style''
             = Style (StyleArray
                 [StyleObject [''color'' \<mapsto> StyleStr (color wa th ps)],
                  StyleObject (fonts_medium th), labelStyle ps])
         \<and> get_prop (element_props t) ''children'' = Str s))
   \<and> (label ps = LabelFunction g \<longrightarrow>
      (\<exists>w. label_wrapper_of (DrawerItem wa th ps) = Some w
         \<and> get_prop (element_props w) ''children''
             = g \<lparr>label_color = color wa th ps, label_focused = resolved_focused ps\<rparr>))"
proof (intro conjI impI)
  assume str: "label ps = LabelString s"
  let ?t = "labelNode wa th ps"
  have "element_type ?t = Some ''Text''"
    and "get_prop (element_props ?t) ''numberOfLines'' = Num 1"
    and "get_prop (element_props ?t) ''allowFontScaling'' = opt_bool (allowFontScaling ps)"
    and "get_prop (element_props ?t) ''style''
           = Style (StyleArray
               [StyleObject [''color'' \<mapsto> StyleStr (color wa th ps)],
                StyleObject (fonts_medium th), labelStyle ps])"
    and "get_prop (element_props ?t) ''children'' = Str s"
    using str by (simp_all add: labelNode_def get_prop_def)
  then show "\<exists>w t. label_wrapper_of (DrawerItem wa th ps) = Some w
         \<and> get_prop (element_props w) ''children'' = t
         \<and> element_type t = Some ''Text''
         \<and> get_prop (element_props t) ''numberOfLines'' = Num 1
         \<and> get_prop (element_props t) ''allowFontScaling'' = opt_bool (allowFontScaling ps)
         \<and> get_prop (element_props t) ''style''
             = Style (StyleArray
                 [StyleObject [''color'' \<mapsto> StyleStr (color wa th ps)],
                  StyleObject (fonts_medium th), labelStyle ps])
         \<and> get_prop (element_props t) ''children'' = Str s"
    by (simp add: label_wrapper_of_DrawerItem labelWrapper_children)
next
  assume fn: "label ps = LabelFunction g"
  then have "labelNode wa th ps
               = g \<lparr>label_color = color wa th ps, label_focused = resolved_focused ps\<rparr>"
    by (simp add: labelNode_def)
  then show "\<exists>w. label_wrapper_of (DrawerItem wa th ps) = Some w
         \<and> get_prop (element_props w) ''children''
             = g \<lparr>label_color = color wa th ps, label_focused = resolved_focused ps\<rparr>"
    by (simp add: label_wrapper_of_DrawerItem labelWrapper_children)
qed

theorem label_rendering_witness:
  "label example_props = LabelString ''Home''
   \<and> (\<exists>w t. label_wrapper_of (DrawerItem example_withAlpha example_theme example_props) = Some w
         \<and> get_prop (element_props w) ''children'' = t
         \<and> element_type t = Some ''Text''
         \<and> get_prop (element_props t) ''numberOfLines'' = Num 1
         \<and> get_prop (element_props t) ''children'' = Str ''Home'')
   \<and> label (example_props\<lparr>label := LabelFunction example_label\<rparr>) = LabelFunction example_label
   \<and> (\<exists>w. label_wrapper_of
             (DrawerItem example_withAlpha example_theme
                (example_props\<lparr>label := LabelFunction example_label\<rparr>)) = Some w
         \<and> get_prop (element_props w) ''children''
             = Element ''Badge'' [''color'' \<mapsto> Str ''#000000/0.68'', ''active'' \<mapsto> Bool False])"
proof -
  let ?ps = "example_props\<lparr>label := LabelFunction example_label\<rparr>"
  have str: "label example_props = LabelString ''Home''" by (simp add: example_props_def)
  have fn: "label ?ps = LabelFunction example_label" by simp
  have col: "color example_withAlpha example_theme ?ps = ''#000000/0.68''"
    by (simp add: color_def resolved_focused_def resolved_inactiveTintColor_def
        example_props_def example_theme_def example_withAlpha_def)
  have foc: "resolved_focused ?ps = False"
    by (simp add: resolved_focused_def example_props_def)
  have badge: "example_label \<lparr>label_color = ''#000000/0.68'', label_focused = False\<rparr>
     = Element ''Badge'' [''color'' \<mapsto> Str ''#000000/0.68'', ''active'' \<mapsto> Bool False]"
    by (simp add: example_label_def)
  from label_rendering [of example_props "''Home''" example_withAlpha example_theme example_label]
       label_rendering [of ?ps "''Home''" example_withAlpha example_theme example_label]
       str fn col foc badge
  show ?thesis by auto
qed

end
